theory Spec2Isabelle
  imports Main "HOL-Library.Char_ord" "HOL-Library.List_Lexorder"
begin

section \<open>JavaScript values and the object heap\<close>

text \<open>
  The marshal module of \<^verbatim>\<open>packages/marshal/src/marshal.js\<close> inspects JavaScript
  values by identity, prototype, own property descriptors and frozenness. Objects
  therefore live in an explicit heap (a list of objects, an address is an index), and a
  value is a primitive or a reference into the heap.

  Numbers are the integer-valued doubles (safe range) together with the four special
  values; non-integer doubles need floating point and are outside the model. Strings
  are sequences of 8-bit code units. Symbols are the well-known
  \<^verbatim>\<open>Symbol.asyncIterator\<close> or any other symbol.
\<close>

type_synonym addr = nat

datatype jsnum = Fin int | NegZero | NaN | PosInf | NegInf

datatype symbol = AsyncIterator | OtherSymbol string

datatype jsval =
    Undefined
  | Null
  | Bool bool
  | Num jsnum
  | BigInt int
  | Str string
  | Sym symbol
  | Ref addr

text \<open>The seven standard error classes of the table \<^verbatim>\<open>errorConstructors\<close>.\<close>

datatype errclass =
  EError | EEvalError | ERangeError | EReferenceError | ESyntaxError | ETypeError | EURIError

text \<open>
  The prototype of an object: \<^verbatim>\<open>null\<close>, one of the frozen intrinsics the
  module compares against, or another heap object.
\<close>

datatype proto =
    NullProto
  | ObjectProto
  | ArrayProto
  | ErrorProto errclass
  | PromiseProto
  | FunctionProto
  | ObjProto addr

datatype pkey = SKey string | SymKey symbol

text \<open>
  A property descriptor: a data property with its value and its enumerable flag, or an
  accessor with the value its getter returns and its enumerable flag. The writable and
  configurable flags are covered by the frozen flag of the object.
\<close>

datatype pdesc = Data jsval bool | Accessor jsval bool

text \<open>
  \<^verbatim>\<open>typeof\<close> is \<^verbatim>\<open>'function'\<close> for a callable object;
  \<^verbatim>\<open>Array.isArray\<close> holds of an array exotic object, whose index properties
  \<^verbatim>\<open>0 .. length-1\<close> are a list of optional descriptors (\<open>None\<close> is a hole);
  a promise object has the internal promise slots.
\<close>

datatype objkind = Ordinary | Callable | ArrayExotic "pdesc option list" | PromiseObj

record obj =
  kind :: objkind
  proto :: proto
  props :: "(pkey \<times> pdesc) list"
  frozen :: bool

text \<open>
  The world: the heap, and the module-level weak map \<^verbatim>\<open>remotableToInterface\<close>
  from objects to interface tags.
\<close>

record world =
  heap :: "obj list"
  registry :: "addr \<rightharpoonup> string"

definition lookup :: "world \<Rightarrow> addr \<Rightarrow> obj option" where
  "lookup w a = (if a < length (heap w) then Some (heap w ! a) else None)"

section \<open>Failures\<close>

text \<open>Every \<^verbatim>\<open>throw\<close> of the module (and of the helpers it calls) is a value.\<close>

datatype error =
    Reserved
  | NotFrozen
  | Thenable
  | ErrorNotInherit
  | ErrorOwnProperties
  | MalformedError
  | ErrorMessageEnumerable
  | MalformedArray
  | ArrayHole nat
  | ArrayAccessor nat
  | ArrayMethod nat
  | ArrayNotEnumerable nat
  | ArrayNonIndex
  | RecordAccessor string
  | RecordNotEnumerable string
  | RemotableNonObject
  | RemotableArray
  | RemotableNull
  | RemotableNonMethod string
  | RemotableNotFrozen
  | BareFunction
  | UnsupportedSymbol
  | SortSymbolKey
  | UnrecognizedPassStyle
  | IbidOutOfRange nat
  | IbidCycle nat
  | UnrecognizedCyclePolicy string
  | NatRangeError
  | InvalidQclass
  | InvalidDigits
  | InvalidErrorName
  | InvalidErrorMessage
  | UnrecognizedQclass string
  | BigIntSyntaxError
  | JSONSyntaxError
  | CyclicProtoValue
  | AssignReadOnly
  | AssertFail
  | AlreadyRegistered
  | NotExtensible
  | OutsideModel
  | OutOfFuel
  | Dangling

section \<open>Reading objects\<close>

definition QCLASS :: string where
  "QCLASS = ''@qclass''"

definition REMOTE_STYLE :: string where
  "REMOTE_STYLE = ''presence''"

fun is_function :: "world \<Rightarrow> jsval \<Rightarrow> bool" where
  "is_function w (Ref a) = (case lookup w a of Some ob \<Rightarrow> kind ob = Callable | None \<Rightarrow> False)"
| "is_function w _ = False"

text \<open>The result of a property read: absent, a value, or an intrinsic function.\<close>

datatype found = NotFound | Found jsval | FoundIntrinsicFunction

fun found_is_function :: "world \<Rightarrow> found \<Rightarrow> bool" where
  "found_is_function w NotFound = False"
| "found_is_function w (Found v) = is_function w v"
| "found_is_function w FoundIntrinsicFunction = True"

fun pdesc_get :: "pdesc \<Rightarrow> jsval" where
  "pdesc_get (Data v e) = v"
| "pdesc_get (Accessor v e) = v"

fun pdesc_enumerable :: "pdesc \<Rightarrow> bool" where
  "pdesc_enumerable (Data v e) = e"
| "pdesc_enumerable (Accessor v e) = e"

fun errclass_name :: "errclass \<Rightarrow> string" where
  "errclass_name EError = ''Error''"
| "errclass_name EEvalError = ''EvalError''"
| "errclass_name ERangeError = ''RangeError''"
| "errclass_name EReferenceError = ''ReferenceError''"
| "errclass_name ESyntaxError = ''SyntaxError''"
| "errclass_name ETypeError = ''TypeError''"
| "errclass_name EURIError = ''URIError''"

text \<open>
  The parent of an intrinsic prototype, and the own string-named properties of the
  intrinsics (ECMAScript 2020; the accessor \<^verbatim>\<open>__proto__\<close> of
  \<^verbatim>\<open>Object.prototype\<close> is treated where it matters, in assignments). No intrinsic
  has a property named \<^verbatim>\<open>@qclass\<close>.
\<close>

fun intrinsic_parent :: "proto \<Rightarrow> proto" where
  "intrinsic_parent ArrayProto = ObjectProto"
| "intrinsic_parent (ErrorProto EError) = ObjectProto"
| "intrinsic_parent (ErrorProto c) = ErrorProto EError"
| "intrinsic_parent PromiseProto = ObjectProto"
| "intrinsic_parent FunctionProto = ObjectProto"
| "intrinsic_parent p = NullProto"

definition object_prototype_methods :: "string list" where
  "object_prototype_methods =
     [''constructor'', ''__defineGetter__'', ''__defineSetter__'', ''hasOwnProperty'',
      ''__lookupGetter__'', ''__lookupSetter__'', ''isPrototypeOf'', ''propertyIsEnumerable'',
      ''toString'', ''valueOf'', ''toLocaleString'']"

definition array_prototype_methods :: "string list" where
  "array_prototype_methods =
     [''constructor'', ''concat'', ''copyWithin'', ''entries'', ''every'', ''fill'', ''filter'',
      ''find'', ''findIndex'', ''flat'', ''flatMap'', ''forEach'', ''includes'', ''indexOf'',
      ''join'', ''keys'', ''lastIndexOf'', ''map'', ''pop'', ''push'', ''reduce'',
      ''reduceRight'', ''reverse'', ''shift'', ''slice'', ''some'', ''sort'', ''splice'',
      ''toLocaleString'', ''toString'', ''unshift'', ''values'']"

definition function_prototype_methods :: "string list" where
  "function_prototype_methods = [''constructor'', ''apply'', ''bind'', ''call'', ''toString'']"

fun intrinsic_own :: "proto \<Rightarrow> string \<Rightarrow> found" where
  "intrinsic_own (ErrorProto c) k =
     (if k = ''name'' then Found (Str (errclass_name c))
      else if k = ''message'' then Found (Str [])
      else if k = ''constructor'' then FoundIntrinsicFunction
      else if k = ''toString'' \<and> c = EError then FoundIntrinsicFunction
      else NotFound)"
| "intrinsic_own PromiseProto k =
     (if k \<in> {''then'', ''catch'', ''finally'', ''constructor''}
      then FoundIntrinsicFunction else NotFound)"
| "intrinsic_own ObjectProto k =
     (if k \<in> set object_prototype_methods then FoundIntrinsicFunction else NotFound)"
| "intrinsic_own ArrayProto k =
     (if k = ''length'' then Found (Num (Fin 0))
      else if k \<in> set array_prototype_methods then FoundIntrinsicFunction else NotFound)"
| "intrinsic_own FunctionProto k =
     (if k = ''length'' then Found (Num (Fin 0))
      else if k = ''name'' then Found (Str [])
      else if k \<in> set function_prototype_methods then FoundIntrinsicFunction else NotFound)"
| "intrinsic_own p k = NotFound"

text \<open>
  The prototype chain above an object. JavaScript keeps prototype chains acyclic, so a
  chain visits every heap object at most once: the fuel \<open>length (heap w) + 3\<close> always
  suffices.
\<close>

fun proto_chain :: "world \<Rightarrow> nat \<Rightarrow> proto \<Rightarrow> proto list" where
  "proto_chain w 0 p = []"
| "proto_chain w (Suc n) NullProto = []"
| "proto_chain w (Suc n) (ObjProto a) =
     ObjProto a # (case lookup w a of None \<Rightarrow> [] | Some ob \<Rightarrow> proto_chain w n (proto ob))"
| "proto_chain w (Suc n) p = p # proto_chain w n (intrinsic_parent p)"

definition chain_fuel :: "world \<Rightarrow> nat" where
  "chain_fuel w = length (heap w) + 3"

definition own_string_property :: "obj \<Rightarrow> string \<Rightarrow> pdesc option" where
  "own_string_property ob k = map_of (props ob) (SKey k)"

fun proto_own :: "world \<Rightarrow> proto \<Rightarrow> string \<Rightarrow> found" where
  "proto_own w (ObjProto a) k =
     (case lookup w a of
        None \<Rightarrow> NotFound
      | Some ob \<Rightarrow> (case own_string_property ob k of
                     None \<Rightarrow> NotFound
                   | Some d \<Rightarrow> Found (pdesc_get d)))"
| "proto_own w p k = intrinsic_own p k"

fun first_found :: "found list \<Rightarrow> found" where
  "first_found [] = NotFound"
| "first_found (NotFound # fs) = first_found fs"
| "first_found (f # fs) = f"

text \<open>\<^verbatim>\<open>val[k]\<close> for a string key that is not an array index or \<^verbatim>\<open>length\<close>.\<close>

definition get_property :: "world \<Rightarrow> obj \<Rightarrow> string \<Rightarrow> found" where
  "get_property w ob k =
     (case own_string_property ob k of
        Some d \<Rightarrow> Found (pdesc_get d)
      | None \<Rightarrow> first_found (map (\<lambda>p. proto_own w p k) (proto_chain w (chain_fuel w) (proto ob))))"

text \<open>\<^verbatim>\<open>k in val\<close>: an own or inherited property of that name exists.\<close>

definition has_property :: "world \<Rightarrow> obj \<Rightarrow> string \<Rightarrow> bool" where
  "has_property w ob k = (get_property w ob k \<noteq> NotFound)"

text \<open>\<^verbatim>\<open>val instanceof Error\<close>: the chain reaches \<^verbatim>\<open>Error.prototype\<close>.\<close>

definition instanceof_Error :: "world \<Rightarrow> obj \<Rightarrow> bool" where
  "instanceof_Error w ob = (ErrorProto EError \<in> set (proto_chain w (chain_fuel w) (proto ob)))"

section \<open>Decimal numerals\<close>

definition digit_char :: "nat \<Rightarrow> char" where
  "digit_char d = ''0123456789'' ! (d mod 10)"

function show_nat :: "nat \<Rightarrow> string" where
  "show_nat n = (if n < 10 then [digit_char n] else show_nat (n div 10) @ [digit_char (n mod 10)])"
  by pat_completeness auto
termination
  by (relation "measure id") auto

declare show_nat.simps [simp del]

definition show_int :: "int \<Rightarrow> string" where
  "show_int i = (if i < 0 then CHR ''-'' # show_nat (nat (- i)) else show_nat (nat i))"

section \<open>The remotable registry\<close>

text \<open>
  \<^verbatim>\<open>getInterfaceOf\<close> is \<^verbatim>\<open>remotableToInterface.get(maybeRemotable)\<close>: a weak map
  lookup, which answers \<^verbatim>\<open>undefined\<close> (here \<open>None\<close>) for every key that is not an
  object or was never set, and never throws.
\<close>

fun getInterfaceOf :: "world \<Rightarrow> jsval \<Rightarrow> string option" where
  "getInterfaceOf w (Ref a) = registry w a"
| "getInterfaceOf w _ = None"

section \<open>Pass-style classification\<close>

definition ebind :: "'e + 'a \<Rightarrow> ('a \<Rightarrow> 'e + 'b) \<Rightarrow> 'e + 'b" where
  "ebind m f = (case m of Inl e \<Rightarrow> Inl e | Inr x \<Rightarrow> f x)"

lemma ebind_Inl [simp]: "ebind (Inl e) f = Inl e"
  by (simp add: ebind_def)

lemma ebind_Inr [simp]: "ebind (Inr x) f = f x"
  by (simp add: ebind_def)

lemma ebind_weak_cong: "m = m' \<Longrightarrow> ebind m f = ebind m' f"
  by simp

lemma ebind_cong [fundef_cong]:
  "m = m' \<Longrightarrow> (\<And>x. m' = Inr x \<Longrightarrow> f x = f' x) \<Longrightarrow> ebind m f = ebind m' f'"
  by (cases m') (simp_all add: ebind_def)

fun getErrorConstructor :: "string \<Rightarrow> errclass option" where
  "getErrorConstructor n =
     (if n = ''Error'' then Some EError
      else if n = ''EvalError'' then Some EEvalError
      else if n = ''RangeError'' then Some ERangeError
      else if n = ''ReferenceError'' then Some EReferenceError
      else if n = ''SyntaxError'' then Some ESyntaxError
      else if n = ''TypeError'' then Some ETypeError
      else if n = ''URIError'' then Some EURIError
      else None)"

fun is_string_key :: "pkey \<times> pdesc \<Rightarrow> bool" where
  "is_string_key (SKey s, d) = True"
| "is_string_key (SymKey s, d) = False"

fun string_props :: "(pkey \<times> pdesc) list \<Rightarrow> (string \<times> pdesc) list" where
  "string_props [] = []"
| "string_props ((SKey s, d) # ps) = (s, d) # string_props ps"
| "string_props ((SymKey s, d) # ps) = string_props ps"

fun index_props :: "nat \<Rightarrow> pdesc option list \<Rightarrow> (string \<times> pdesc) list" where
  "index_props i [] = []"
| "index_props i (None # es) = index_props (Suc i) es"
| "index_props i (Some d # es) = (show_nat i, d) # index_props (Suc i) es"

text \<open>
  The string-keyed own property descriptors of an object, as
  \<^verbatim>\<open>Object.entries(Object.getOwnPropertyDescriptors(val))\<close> lists them: for an array
  the index properties, then \<^verbatim>\<open>length\<close>, then the others.
\<close>

definition own_string_descs :: "obj \<Rightarrow> (string \<times> pdesc) list" where
  "own_string_descs ob =
     (case kind ob of
        ArrayExotic es \<Rightarrow>
          index_props 0 es @ [(''length'', Data (Num (Fin (int (length es)))) False)]
            @ string_props (props ob)
      | _ \<Rightarrow> string_props (props ob))"

definition isPassByCopyError :: "world \<Rightarrow> obj \<Rightarrow> error + bool" where
  "isPassByCopyError w ob =
     (if \<not> instanceof_Error w ob then Inr False
      else if \<not> (case get_property w ob ''name'' of
                   Found (Str n) \<Rightarrow>
                     (case getErrorConstructor n of
                        Some c \<Rightarrow> proto ob = ErrorProto c
                      | None \<Rightarrow> False)
                 | _ \<Rightarrow> False)
      then Inl ErrorNotInherit
      else if list_ex (\<lambda>(k, d). k \<noteq> ''message'' \<and> k \<noteq> ''stack'') (own_string_descs ob)
      then Inl ErrorOwnProperties
      else (case map_of (own_string_descs ob) ''message'' of
              None \<Rightarrow> Inr True
            | Some (Data (Str m) e) \<Rightarrow> if e then Inl ErrorMessageEnumerable else Inr True
            | Some _ \<Rightarrow> Inl MalformedError))"

fun check_elements :: "world \<Rightarrow> nat \<Rightarrow> pdesc option list \<Rightarrow> error option" where
  "check_elements w i [] = None"
| "check_elements w i (None # es) = Some (ArrayHole i)"
| "check_elements w i (Some (Accessor v e) # es) = Some (ArrayAccessor i)"
| "check_elements w i (Some (Data v e) # es) =
     (if is_function w v then Some (ArrayMethod i)
      else if \<not> e then Some (ArrayNotEnumerable i)
      else check_elements w (Suc i) es)"

definition isPassByCopyArray :: "world \<Rightarrow> obj \<Rightarrow> error + bool" where
  "isPassByCopyArray w ob =
     (case kind ob of
        ArrayExotic es \<Rightarrow>
          if proto ob \<noteq> ArrayProto then Inl MalformedArray
          else (case check_elements w 0 es of
                  Some e \<Rightarrow> Inl e
                | None \<Rightarrow> if string_props (props ob) \<noteq> [] then Inl ArrayNonIndex else Inr True)
      | _ \<Rightarrow> Inr False)"

fun check_record_descs :: "(string \<times> pdesc) list \<Rightarrow> error option" where
  "check_record_descs [] = None"
| "check_record_descs ((k, Accessor v e) # ds) = Some (RecordAccessor k)"
| "check_record_descs ((k, Data v e) # ds) =
     (if \<not> e then Some (RecordNotEnumerable k) else check_record_descs ds)"

definition isPassByCopyRecord :: "world \<Rightarrow> obj \<Rightarrow> error + bool" where
  "isPassByCopyRecord w ob =
     (if proto ob \<noteq> ObjectProto then Inr False
      else let descEntries = own_string_descs ob in
        if descEntries = [] then Inr False
        else if list_ex (\<lambda>(k, d). case d of Data v e \<Rightarrow> is_function w v | Accessor v e \<Rightarrow> False)
                  descEntries
        then Inr False
        else (case check_record_descs descEntries of
                Some e \<Rightarrow> Inl e
              | None \<Rightarrow> Inr True))"

fun check_methods :: "world \<Rightarrow> (string \<times> pdesc) list \<Rightarrow> error option" where
  "check_methods w [] = None"
| "check_methods w ((k, d) # ds) =
     (if is_function w (pdesc_get d) then check_methods w ds else Some (RemotableNonMethod k))"

fun assertCanBeRemotable :: "world \<Rightarrow> jsval \<Rightarrow> error + unit" where
  "assertCanBeRemotable w (Ref a) =
     (case lookup w a of
        None \<Rightarrow> Inl Dangling
      | Some ob \<Rightarrow>
          (case kind ob of
             Callable \<Rightarrow> Inl RemotableNonObject
           | ArrayExotic es \<Rightarrow> Inl RemotableArray
           | _ \<Rightarrow> (case check_methods w (own_string_descs ob) of
                      Some e \<Rightarrow> Inl e
                    | None \<Rightarrow> Inr ())))"
| "assertCanBeRemotable w Null = Inl RemotableNull"
| "assertCanBeRemotable w v = Inl RemotableNonObject"

text \<open>
  \<^verbatim>\<open>mustPassByRemote\<close> walks the prototype chain; the fuel bounds the walk as for
  \<open>proto_chain\<close>. On an intrinsic prototype the outcome is that of the source on the
  frozen intrinsic: \<^verbatim>\<open>Array.prototype\<close> is an array, the error prototypes hold the
  strings \<^verbatim>\<open>name\<close> and \<^verbatim>\<open>message\<close>, \<^verbatim>\<open>Function.prototype\<close> is callable,
  \<^verbatim>\<open>Promise.prototype\<close> holds methods only.
\<close>

fun mustPassByRemote :: "nat \<Rightarrow> world \<Rightarrow> proto \<Rightarrow> error + unit" where
  "mustPassByRemote 0 w p = Inl OutOfFuel"
| "mustPassByRemote (Suc n) w (ObjProto a) =
     (case lookup w a of
        None \<Rightarrow> Inl Dangling
      | Some ob \<Rightarrow>
          if \<not> frozen ob then Inl RemotableNotFrozen
          else ebind (if getInterfaceOf w (Ref a) = None then assertCanBeRemotable w (Ref a) else Inr ())
            (\<lambda>_. let p = proto ob in
                  if p \<noteq> NullProto \<and> p \<noteq> ObjectProto then mustPassByRemote n w p else Inr ()))"
| "mustPassByRemote (Suc n) w NullProto = Inl RemotableNull"
| "mustPassByRemote (Suc n) w ObjectProto = Inl (RemotableNonMethod ''__proto__'')"
| "mustPassByRemote (Suc n) w ArrayProto = Inl RemotableArray"
| "mustPassByRemote (Suc n) w (ErrorProto c) = Inl (RemotableNonMethod ''name'')"
| "mustPassByRemote (Suc n) w FunctionProto = Inl RemotableNonObject"
| "mustPassByRemote (Suc n) w PromiseProto = Inr ()"

datatype passStyle =
    PSundefined | PSnull | PSboolean | PSnumber | PSbigint | PSstring | PSsymbol
  | PScopyRecord | PScopyArray | PScopyError | PSremote | PSpromise

text \<open>
  Modelled from the spec: \<^verbatim>\<open>isPromise\<close> of \<^verbatim>\<open>@agoric/promise-kit\<close> is not under
  the sources; it holds of genuine promises (futures) only: objects with the promise
  slots that inherit from \<^verbatim>\<open>Promise.prototype\<close>.
\<close>

definition isPromise :: "obj \<Rightarrow> bool" where
  "isPromise ob = (kind ob = PromiseObj \<and> proto ob = PromiseProto)"

text \<open>
  \<^verbatim>\<open>passStyleOf\<close>, in the order of the source: the \<^verbatim>\<open>typeof\<close> switch; for an
  object the registry, \<^verbatim>\<open>null\<close>, the reserved name, frozenness, promises,
  thenables, errors, arrays, records, and at last \<^verbatim>\<open>mustPassByRemote\<close>.
  \<open>PSremote\<close> is the style named \<^verbatim>\<open>REMOTE_STYLE\<close>.
\<close>

fun passStyleOf :: "world \<Rightarrow> jsval \<Rightarrow> error + passStyle" where
  "passStyleOf w (Ref a) =
     (case lookup w a of
        None \<Rightarrow> Inl Dangling
      | Some ob \<Rightarrow>
          if kind ob = Callable then Inl BareFunction
          else if getInterfaceOf w (Ref a) \<noteq> None then Inr PSremote
          else if has_property w ob QCLASS then Inl Reserved
          else if \<not> frozen ob then Inl NotFrozen
          else if isPromise ob then Inr PSpromise
          else if found_is_function w (get_property w ob ''then'') then Inl Thenable
          else ebind (isPassByCopyError w ob) (\<lambda>isErr.
            if isErr then Inr PScopyError
            else ebind (isPassByCopyArray w ob) (\<lambda>isArr.
              if isArr then Inr PScopyArray
              else ebind (isPassByCopyRecord w ob) (\<lambda>isRec.
                if isRec then Inr PScopyRecord
                else ebind (mustPassByRemote (chain_fuel w) w (ObjProto a)) (\<lambda>_. Inr PSremote)))))"
| "passStyleOf w Null = Inr PSnull"
| "passStyleOf w Undefined = Inr PSundefined"
| "passStyleOf w (Str s) = Inr PSstring"
| "passStyleOf w (Bool b) = Inr PSboolean"
| "passStyleOf w (Num n) = Inr PSnumber"
| "passStyleOf w (BigInt i) = Inr PSbigint"
| "passStyleOf w (Sym s) = Inr PSsymbol"

section \<open>The raw tree and its canonical text\<close>

text \<open>
  The plain data that \<^verbatim>\<open>encode\<close> builds and \<^verbatim>\<open>JSON.parse\<close> returns. The fields
  of \<open>JObj\<close> are the own properties of the object in the order in which JavaScript
  enumerates them.
\<close>

datatype json =
    JNull
  | JBool bool
  | JNum jsnum
  | JStr string
  | JArr "json list"
  | JObj "(string \<times> json) list"

definition is_digit :: "char \<Rightarrow> bool" where
  "is_digit c = (c \<in> set ''0123456789'')"

fun index_in :: "string \<Rightarrow> char \<Rightarrow> nat" where
  "index_in [] c = 0"
| "index_in (d # ds) c = (if d = c then 0 else Suc (index_in ds c))"

definition digit_val :: "char \<Rightarrow> int" where
  "digit_val c = (if is_digit c then int (index_in ''0123456789'' c) else 0)"

definition int_of_digits :: "string \<Rightarrow> int" where
  "int_of_digits s = foldl (\<lambda>n c. 10 * n + digit_val c) 0 s"

text \<open>
  An array index is the canonical decimal numeral of a number below \<open>2^32 - 1\<close>.
  The own string keys of an ordinary object enumerate with the array indices first, in
  ascending numeric order, and then the other names in the order of their creation
  (ECMAScript, OrdinaryOwnPropertyKeys).
\<close>

definition is_array_index :: "string \<Rightarrow> bool" where
  "is_array_index s =
     (case s of
        [] \<Rightarrow> False
      | c # cs \<Rightarrow> list_all is_digit s \<and> (cs = [] \<or> c \<noteq> CHR ''0'')
                 \<and> int_of_digits s < 4294967295)"

definition own_key_order :: "(string \<times> 'a) list \<Rightarrow> (string \<times> 'a) list" where
  "own_key_order kvs =
     sort_key (\<lambda>kv. int_of_digits (fst kv)) (filter (\<lambda>kv. is_array_index (fst kv)) kvs)
       @ filter (\<lambda>kv. \<not> is_array_index (fst kv)) kvs"

fun define_property :: "(string \<times> 'a) list \<Rightarrow> string \<Rightarrow> 'a \<Rightarrow> (string \<times> 'a) list" where
  "define_property [] k v = [(k, v)]"
| "define_property ((k', v') # kvs) k v =
     (if k' = k then (k, v) # kvs else (k', v') # define_property kvs k v)"

text \<open>
  The object that results from creating the given properties one after the other on an
  empty object, as \<^verbatim>\<open>Object.fromEntries\<close> and \<^verbatim>\<open>JSON.parse\<close> do.
\<close>

definition create_object :: "(string \<times> 'a) list \<Rightarrow> (string \<times> 'a) list" where
  "create_object entries =
     own_key_order (foldl (\<lambda>acc kv. define_property acc (fst kv) (snd kv)) [] entries)"

definition Object_fromEntries :: "(string \<times> json) list \<Rightarrow> json" where
  "Object_fromEntries entries = JObj (create_object entries)"

definition hex_char :: "nat \<Rightarrow> char" where
  "hex_char d = ''0123456789abcdef'' ! (d mod 16)"

text \<open>\<^verbatim>\<open>QuoteJSONString\<close> of ECMAScript, the text of a string in \<^verbatim>\<open>JSON.stringify\<close>.\<close>

definition quote_char :: "char \<Rightarrow> string" where
  "quote_char c =
     (if c = CHR 0x22 then [CHR 0x5C, CHR 0x22]
      else if c = CHR 0x5C then [CHR 0x5C, CHR 0x5C]
      else if c = CHR 0x08 then [CHR 0x5C, CHR ''b'']
      else if c = CHR 0x09 then [CHR 0x5C, CHR ''t'']
      else if c = CHR 0x0A then [CHR 0x5C, CHR ''n'']
      else if c = CHR 0x0C then [CHR 0x5C, CHR ''f'']
      else if c = CHR 0x0D then [CHR 0x5C, CHR ''r'']
      else if of_char c < (32 :: nat)
      then [CHR 0x5C, CHR ''u'', CHR ''0'', CHR ''0'',
            hex_char (of_char c div 16), hex_char (of_char c mod 16)]
      else [c])"

definition QuoteJSONString :: "string \<Rightarrow> string" where
  "QuoteJSONString s = CHR 0x22 # concat (map quote_char s) @ [CHR 0x22]"

fun join_comma :: "string list \<Rightarrow> string" where
  "join_comma [] = []"
| "join_comma [x] = x"
| "join_comma (x # y # ys) = x @ CHR '','' # join_comma (y # ys)"

text \<open>
  The numbers of the model are the integer-valued doubles up to \<open>2^53\<close> in
  magnitude, which are all exact, and the special values. A larger integer need not
  be a double at all, and from \<open>10^21\<close> on JavaScript prints the exponent form.
\<close>

fun number_in_model :: "jsnum \<Rightarrow> bool" where
  "number_in_model (Fin i) = (- 9007199254740992 \<le> i \<and> i \<le> 9007199254740992)"
| "number_in_model n = True"

fun numbers_in_model :: "json \<Rightarrow> bool"
  and elements_in_model :: "json list \<Rightarrow> bool"
  and members_in_model :: "(string \<times> json) list \<Rightarrow> bool" where
  "numbers_in_model (JNum n) = number_in_model n"
| "numbers_in_model (JArr xs) = elements_in_model xs"
| "numbers_in_model (JObj kvs) = members_in_model kvs"
| "numbers_in_model JNull = True"
| "numbers_in_model (JBool b) = True"
| "numbers_in_model (JStr s) = True"
| "elements_in_model [] = True"
| "elements_in_model (x # xs) = (numbers_in_model x \<and> elements_in_model xs)"
| "members_in_model [] = True"
| "members_in_model ((k, v) # kvs) = (numbers_in_model v \<and> members_in_model kvs)"

text \<open>
  The text of \<^verbatim>\<open>JSON.stringify\<close> without indentation, for a raw tree whose numbers
  are in the model. A number that is not finite prints as \<^verbatim>\<open>null\<close>, negative
  zero as \<^verbatim>\<open>0\<close>.
\<close>

fun number_text :: "jsnum \<Rightarrow> string" where
  "number_text (Fin i) = show_int i"
| "number_text NegZero = ''0''"
| "number_text NaN = ''null''"
| "number_text PosInf = ''null''"
| "number_text NegInf = ''null''"

fun json_text :: "json \<Rightarrow> string"
  and elements_text :: "json list \<Rightarrow> string list"
  and members_text :: "(string \<times> json) list \<Rightarrow> string list" where
  "json_text JNull = ''null''"
| "json_text (JBool b) = (if b then ''true'' else ''false'')"
| "json_text (JNum n) = number_text n"
| "json_text (JStr s) = QuoteJSONString s"
| "json_text (JArr xs) = CHR ''['' # join_comma (elements_text xs) @ '']''"
| "json_text (JObj kvs) = CHR ''{'' # join_comma (members_text kvs) @ ''}''"
| "elements_text [] = []"
| "elements_text (x # xs) = json_text x # elements_text xs"
| "members_text [] = []"
| "members_text ((k, v) # kvs) =
     (QuoteJSONString k @ CHR '':'' # json_text v) # members_text kvs"

text \<open>
  \<^verbatim>\<open>JSON.stringify\<close>: the text, or \<open>OutsideModel\<close> when the tree holds a number
  beyond the model.
\<close>

definition JSON_stringify :: "json \<Rightarrow> error + string" where
  "JSON_stringify x = (if numbers_in_model x then Inr (json_text x) else Inl OutsideModel)"

section \<open>The encoder\<close>

text \<open>
  A marshal instance: the two translators and the name. The translators are pure
  functions; \<^verbatim>\<open>convertSlotToVal\<close> receives \<^verbatim>\<open>slots[index]\<close>, which is
  \<^verbatim>\<open>undefined\<close> (here \<open>None\<close>) outside the list, and the raw \<^verbatim>\<open>iface\<close> field.
\<close>

record 's marshal =
  convertValToSlot :: "jsval \<Rightarrow> 's"
  convertSlotToVal :: "'s option \<Rightarrow> json option \<Rightarrow> jsval"
  marshalName :: string

record 's capdata =
  body :: string
  slots :: "'s list"

text \<open>
  The state of one \<^verbatim>\<open>serialize\<close> call: \<^verbatim>\<open>slots\<close>, \<^verbatim>\<open>slotMap\<close>, the replacer
  ibid table (\<^verbatim>\<open>ibidMap\<close>, \<^verbatim>\<open>ibidCount\<close>), together with the error counter of the
  marshal instance and the notes attached by \<^verbatim>\<open>assert.note\<close>.
\<close>

record 's encstate =
  enc_slots :: "'s list"
  slotMap :: "addr \<rightharpoonup> nat"
  ibidMap :: "addr \<rightharpoonup> nat"
  ibidCount :: nat
  errorCount :: nat
  sent_notes :: "(addr \<times> string) list"

definition ibid_add :: "'s encstate \<Rightarrow> addr \<Rightarrow> 's encstate" where
  "ibid_add st a = st\<lparr>ibidMap := (ibidMap st)(a \<mapsto> ibidCount st), ibidCount := ibidCount st + 1\<rparr>"

definition nat_json :: "nat \<Rightarrow> json" where
  "nat_json n = JNum (Fin (int n))"

definition serializeSlot ::
  "'s marshal \<Rightarrow> 's encstate \<Rightarrow> addr \<Rightarrow> string option \<Rightarrow> json \<times> 's encstate" where
  "serializeSlot m st a iface =
     (let (slotIndex, st') =
        (case slotMap st a of
           Some i \<Rightarrow> (i, st)
         | None \<Rightarrow>
             (length (enc_slots st),
              st\<lparr>enc_slots := enc_slots st @ [convertValToSlot m (Ref a)],
                 slotMap := (slotMap st)(a \<mapsto> length (enc_slots st))\<rparr>))
      in case iface of
           None \<Rightarrow> (JObj [(QCLASS, JStr ''slot''), (''index'', nat_json slotIndex)], st')
         | Some i \<Rightarrow>
             (JObj [(QCLASS, JStr ''slot''), (''iface'', JStr i), (''index'', nat_json slotIndex)],
              st'))"

definition nextErrorId :: "'s marshal \<Rightarrow> 's encstate \<Rightarrow> string \<times> 's encstate" where
  "nextErrorId m st =
     (''error:'' @ marshalName m @ ''#'' @ show_nat (errorCount st + 1),
      st\<lparr>errorCount := errorCount st + 1\<rparr>)"

text \<open>The text of a template literal over a property read that found a string.\<close>

fun template_text :: "found \<Rightarrow> string" where
  "template_text (Found (Str s)) = s"
| "template_text (Found Null) = ''null''"
| "template_text _ = ''undefined''"

fun element_values :: "pdesc option list \<Rightarrow> jsval list" where
  "element_values [] = []"
| "element_values (None # es) = element_values es"
| "element_values (Some d # es) = pdesc_get d # element_values es"

definition has_symbol_key :: "obj \<Rightarrow> bool" where
  "has_symbol_key ob = list_ex (\<lambda>kd. \<not> is_string_key kd) (props ob)"

text \<open>
  \<^verbatim>\<open>encode\<close>. The recursion follows the object graph, which may be cyclic; every
  nested call on an object is made after that object entered the ibid table, so the
  depth of the recursion is at most the number of heap objects plus one. The fuel
  counts depth.
\<close>

fun encode :: "nat \<Rightarrow> 's marshal \<Rightarrow> world \<Rightarrow> 's encstate \<Rightarrow> jsval \<Rightarrow> error + (json \<times> 's encstate)"
  and encode_all ::
    "nat \<Rightarrow> 's marshal \<Rightarrow> world \<Rightarrow> 's encstate \<Rightarrow> jsval list \<Rightarrow> error + (json list \<times> 's encstate)"
  where
  "encode 0 m w st v = Inl OutOfFuel"
| "encode (Suc n) m w st v =
     ebind (passStyleOf w v) (\<lambda>passStyle.
       case passStyle of
         PSnull \<Rightarrow> Inr (JNull, st)
       | PSundefined \<Rightarrow> Inr (JObj [(QCLASS, JStr ''undefined'')], st)
       | PSstring \<Rightarrow> (case v of Str s \<Rightarrow> Inr (JStr s, st) | _ \<Rightarrow> Inl UnrecognizedPassStyle)
       | PSboolean \<Rightarrow> (case v of Bool b \<Rightarrow> Inr (JBool b, st) | _ \<Rightarrow> Inl UnrecognizedPassStyle)
       | PSnumber \<Rightarrow>
           (case v of
              Num NaN \<Rightarrow> Inr (JObj [(QCLASS, JStr ''NaN'')], st)
            | Num NegZero \<Rightarrow> Inr (JNum (Fin 0), st)
            | Num PosInf \<Rightarrow> Inr (JObj [(QCLASS, JStr ''Infinity'')], st)
            | Num NegInf \<Rightarrow> Inr (JObj [(QCLASS, JStr ''-Infinity'')], st)
            | Num x \<Rightarrow> Inr (JNum x, st)
            | _ \<Rightarrow> Inl UnrecognizedPassStyle)
       | PSbigint \<Rightarrow>
           (case v of
              BigInt i \<Rightarrow> Inr (JObj [(QCLASS, JStr ''bigint''), (''digits'', JStr (show_int i))], st)
            | _ \<Rightarrow> Inl UnrecognizedPassStyle)
       | PSsymbol \<Rightarrow>
           (if v = Sym AsyncIterator then Inr (JObj [(QCLASS, JStr ''@@asyncIterator'')], st)
            else Inl UnsupportedSymbol)
       | _ \<Rightarrow>
           (case v of
              Ref a \<Rightarrow>
                (case ibidMap st a of
                   Some i \<Rightarrow> Inr (JObj [(QCLASS, JStr ''ibid''), (''index'', nat_json i)], st)
                 | None \<Rightarrow>
                     (case lookup w a of
                        None \<Rightarrow> Inl Dangling
                      | Some ob \<Rightarrow>
                          let st1 = ibid_add st a in
                          (case passStyle of
                             PScopyRecord \<Rightarrow>
                               if has_symbol_key ob then Inl SortSymbolKey
                               else
                                 let names = sort (map fst (own_string_descs ob)) in
                                 ebind (encode_all n m w st1
                                          (map (\<lambda>name. case map_of (own_string_descs ob) name of
                                                          Some d \<Rightarrow> pdesc_get d
                                                        | None \<Rightarrow> Undefined) names))
                                   (\<lambda>(encs, st2). Inr (Object_fromEntries (zip names encs), st2))
                           | PScopyArray \<Rightarrow>
                               (case kind ob of
                                  ArrayExotic es \<Rightarrow>
                                    ebind (encode_all n m w st1 (element_values es))
                                      (\<lambda>(encs, st2). Inr (JArr encs, st2))
                                | _ \<Rightarrow> Inl UnrecognizedPassStyle)
                           | PScopyError \<Rightarrow>
                               (let (errorId, st2) = nextErrorId m st1 in
                                Inr (JObj [(QCLASS, JStr ''error''),
                                           (''errorId'', JStr errorId),
                                           (''message'', JStr (template_text (get_property w ob ''message''))),
                                           (''name'', JStr (template_text (get_property w ob ''name'')))],
                                     st2\<lparr>sent_notes := sent_notes st2 @ [(a, errorId)]\<rparr>))
                           | PSremote \<Rightarrow> Inr (serializeSlot m st1 a (getInterfaceOf w v))
                           | PSpromise \<Rightarrow> Inr (serializeSlot m st1 a None)
                           | _ \<Rightarrow> Inl UnrecognizedPassStyle)))
            | _ \<Rightarrow> Inl UnrecognizedPassStyle))"
| "encode_all n m w st [] = Inr ([], st)"
| "encode_all n m w st (v # vs) =
     ebind (encode n m w st v) (\<lambda>(e, st1).
       ebind (encode_all n m w st1 vs) (\<lambda>(es, st2). Inr (e # es, st2)))"

definition init_encstate :: "nat \<Rightarrow> 's encstate" where
  "init_encstate count =
     \<lparr>enc_slots = [], slotMap = Map.empty, ibidMap = Map.empty, ibidCount = 0,
      errorCount = count, sent_notes = []\<rparr>"

definition encode_fuel :: "world \<Rightarrow> nat" where
  "encode_fuel w = length (heap w) + 1"

text \<open>
  \<^verbatim>\<open>serialize\<close>: the capdata, and the error counter of the marshal instance after
  the call (its first argument is the counter before the call).
\<close>

definition serialize :: "'s marshal \<Rightarrow> nat \<Rightarrow> world \<Rightarrow> jsval \<Rightarrow> error + ('s capdata \<times> nat)" where
  "serialize m count w root =
     ebind (encode (encode_fuel w) m w (init_encstate count) root) (\<lambda>(encoded, st).
       ebind (JSON_stringify encoded) (\<lambda>text.
         Inr (\<lparr>body = text, slots = enc_slots st\<rparr>, errorCount st)))"

section \<open>Parsing the body\<close>

text \<open>
  \<^verbatim>\<open>JSON.parse\<close> (ECMAScript) as a recursive-descent parser. The fuel bounds the
  nesting; twice the length of the text always suffices, since every call consumes a
  character before it recurses twice. A number with a fraction or an exponent, and an
  escape above code unit 255, are valid JSON outside the modelled fragment: they are
  reported as \<open>OutsideModel\<close>, never as a syntax error.
\<close>

definition is_ws :: "char \<Rightarrow> bool" where
  "is_ws c = (c = CHR '' '' \<or> c = CHR 0x09 \<or> c = CHR 0x0A \<or> c = CHR 0x0D)"

definition skip_ws :: "string \<Rightarrow> string" where
  "skip_ws s = dropWhile is_ws s"

definition starts_with :: "string \<Rightarrow> string \<Rightarrow> bool" where
  "starts_with p s = (take (length p) s = p)"

definition hex_val :: "char \<Rightarrow> int option" where
  "hex_val c =
     (if c \<in> set ''0123456789abcdef'' then Some (int (index_in ''0123456789abcdef'' c))
      else if c \<in> set ''ABCDEF'' then Some (10 + int (index_in ''ABCDEF'' c))
      else None)"

text \<open>The characters of a string literal after its opening quote, up to the closing one.\<close>

fun parse_string :: "string \<Rightarrow> error + (string \<times> string)" where
  "parse_string [] = Inl JSONSyntaxError"
| "parse_string [c] = (if c = CHR 0x22 then Inr ([], []) else Inl JSONSyntaxError)"
| "parse_string (c # d # r) =
     (if c = CHR 0x22 then Inr ([], d # r)
      else if of_char c < (32 :: nat) then Inl JSONSyntaxError
      else if c = CHR 0x5C then
        (if d = CHR ''u'' then
           (case r of
              h1 # h2 # h3 # h4 # r' \<Rightarrow>
                (case (hex_val h1, hex_val h2, hex_val h3, hex_val h4) of
                   (Some a, Some b, Some c', Some d') \<Rightarrow>
                     if a = 0 \<and> b = 0
                     then ebind (parse_string r')
                            (\<lambda>(str, rest). Inr (char_of (16 * c' + d') # str, rest))
                     else Inl OutsideModel
                 | _ \<Rightarrow> Inl JSONSyntaxError)
            | _ \<Rightarrow> Inl JSONSyntaxError)
         else
           (case (if d = CHR 0x22 then Some (CHR 0x22)
                  else if d = CHR 0x5C then Some (CHR 0x5C)
                  else if d = CHR ''/'' then Some (CHR ''/'')
                  else if d = CHR ''b'' then Some (CHR 0x08)
                  else if d = CHR ''f'' then Some (CHR 0x0C)
                  else if d = CHR ''n'' then Some (CHR 0x0A)
                  else if d = CHR ''r'' then Some (CHR 0x0D)
                  else if d = CHR ''t'' then Some (CHR 0x09)
                  else None) of
              None \<Rightarrow> Inl JSONSyntaxError
            | Some e \<Rightarrow> ebind (parse_string r) (\<lambda>(str, rest). Inr (e # str, rest))))
      else ebind (parse_string (d # r)) (\<lambda>(str, rest). Inr (c # str, rest)))"

text \<open>
  A number: an optional minus sign, then \<^verbatim>\<open>0\<close> or a numeral without leading zero.
  \<^verbatim>\<open>-0\<close> is negative zero. An integer above \<open>2^53\<close> in magnitude is rounded to
  a double by JavaScript, which is outside the model.
\<close>

definition parse_number :: "string \<Rightarrow> error + (jsnum \<times> string)" where
  "parse_number s =
     (let neg = starts_with ''-'' s;
          s1 = (if neg then drop 1 s else s);
          ds = (if starts_with ''0'' s1 then ''0'' else takeWhile is_digit s1);
          rest = drop (length ds) s1
      in if ds = [] then Inl JSONSyntaxError
         else if starts_with ''.'' rest \<or> starts_with ''e'' rest \<or> starts_with ''E'' rest
         then Inl OutsideModel
         else if int_of_digits ds > 9007199254740992 then Inl OutsideModel
         else if neg \<and> int_of_digits ds = 0 then Inr (NegZero, rest)
         else Inr (Fin (if neg then - int_of_digits ds else int_of_digits ds), rest))"

fun parse_value :: "nat \<Rightarrow> string \<Rightarrow> error + (json \<times> string)"
  and parse_elements :: "nat \<Rightarrow> string \<Rightarrow> error + (json list \<times> string)"
  and parse_members :: "nat \<Rightarrow> string \<Rightarrow> error + ((string \<times> json) list \<times> string)"
  where
  "parse_value 0 s = Inl OutOfFuel"
| "parse_value (Suc n) s =
     (case s of
        [] \<Rightarrow> Inl JSONSyntaxError
      | c # r \<Rightarrow>
          if starts_with ''null'' s then Inr (JNull, drop 4 s)
          else if starts_with ''true'' s then Inr (JBool True, drop 4 s)
          else if starts_with ''false'' s then Inr (JBool False, drop 5 s)
          else if c = CHR 0x22 then ebind (parse_string r) (\<lambda>(str, r1). Inr (JStr str, r1))
          else if c = CHR ''['' then
            (let r1 = skip_ws r in
             if starts_with '']'' r1 then Inr (JArr [], drop 1 r1)
             else ebind (parse_elements n r1) (\<lambda>(xs, r2). Inr (JArr xs, r2)))
          else if c = CHR ''{'' then
            (let r1 = skip_ws r in
             if starts_with ''}'' r1 then Inr (JObj [], drop 1 r1)
             else ebind (parse_members n r1) (\<lambda>(kvs, r2). Inr (JObj (create_object kvs), r2)))
          else if c = CHR ''-'' \<or> is_digit c then
            ebind (parse_number s) (\<lambda>(x, r1). Inr (JNum x, r1))
          else Inl JSONSyntaxError)"
| "parse_elements 0 s = Inl OutOfFuel"
| "parse_elements (Suc n) s =
     ebind (parse_value n s) (\<lambda>(x, r).
       let r1 = skip_ws r in
       if starts_with '','' r1 then
         ebind (parse_elements n (skip_ws (drop 1 r1))) (\<lambda>(xs, r2). Inr (x # xs, r2))
       else if starts_with '']'' r1 then Inr ([x], drop 1 r1)
       else Inl JSONSyntaxError)"
| "parse_members 0 s = Inl OutOfFuel"
| "parse_members (Suc n) s =
     (if \<not> starts_with [CHR 0x22] s then Inl JSONSyntaxError
      else ebind (parse_string (drop 1 s)) (\<lambda>(k, r).
        let r1 = skip_ws r in
        if \<not> starts_with '':'' r1 then Inl JSONSyntaxError
        else ebind (parse_value n (skip_ws (drop 1 r1))) (\<lambda>(v, r2).
          let r3 = skip_ws r2 in
          if starts_with '','' r3 then
            ebind (parse_members n (skip_ws (drop 1 r3))) (\<lambda>(kvs, r4). Inr ((k, v) # kvs, r4))
          else if starts_with ''}'' r3 then Inr ([(k, v)], drop 1 r3)
          else Inl JSONSyntaxError)))"

definition JSON_parse :: "string \<Rightarrow> error + json" where
  "JSON_parse s =
     ebind (parse_value (2 * length s + 2) (skip_ws s)) (\<lambda>(x, r).
       if skip_ws r = [] then Inr x else Inl JSONSyntaxError)"

section \<open>The decoder\<close>

text \<open>
  Modelled from the spec: \<^verbatim>\<open>Nat\<close> of \<^verbatim>\<open>@agoric/nat\<close> is not under the sources; it
  returns its argument when that is a non-negative safe integer and throws a
  \<^verbatim>\<open>RangeError\<close> otherwise. The argument is a field of the raw tree, absent
  (\<^verbatim>\<open>undefined\<close>) when the field is missing.
\<close>

fun Nat :: "json option \<Rightarrow> error + nat" where
  "Nat (Some (JNum (Fin i))) =
     (if 0 \<le> i \<and> i \<le> 9007199254740991 then Inr (nat i) else Inl NatRangeError)"
| "Nat (Some (JNum NegZero)) = Inr 0"
| "Nat _ = Inl NatRangeError"

text \<open>
  The state of one \<^verbatim>\<open>unserialize\<close> call: the world, in which the revived objects are
  allocated, the reviver ibid table (\<^verbatim>\<open>ibids\<close>, \<^verbatim>\<open>unfinishedIbids\<close>) and the notes
  attached by \<^verbatim>\<open>assert.note\<close>.
\<close>

record decstate =
  dworld :: world
  ibids :: "jsval list"
  unfinishedIbids :: "addr set"
  received_notes :: "(addr \<times> string) list"

fun is_unfinished :: "decstate \<Rightarrow> jsval \<Rightarrow> bool" where
  "is_unfinished st (Ref a) = (a \<in> unfinishedIbids st)"
| "is_unfinished st _ = False"

text \<open>The four operations of \<^verbatim>\<open>makeReviverIbidTable(cyclePolicy)\<close>.\<close>

definition ibid_get :: "string \<Rightarrow> decstate \<Rightarrow> json option \<Rightarrow> error + jsval" where
  "ibid_get cyclePolicy st allegedIndex =
     ebind (Nat allegedIndex) (\<lambda>index.
       if index \<ge> length (ibids st) then Inl (IbidOutOfRange index)
       else let result = ibids st ! index in
         if is_unfinished st result then
           (if cyclePolicy = ''allowCycles'' then Inr result
            else if cyclePolicy = ''warnOfCycles'' then Inr result
            else if cyclePolicy = ''forbidCycles'' then Inl (IbidCycle index)
            else Inl (UnrecognizedCyclePolicy cyclePolicy))
         else Inr result)"

definition ibid_register :: "decstate \<Rightarrow> jsval \<Rightarrow> decstate" where
  "ibid_register st v = st\<lparr>ibids := ibids st @ [v]\<rparr>"

definition ibid_start :: "decstate \<Rightarrow> addr \<Rightarrow> decstate" where
  "ibid_start st a =
     st\<lparr>ibids := ibids st @ [Ref a], unfinishedIbids := insert a (unfinishedIbids st)\<rparr>"

definition ibid_finish :: "decstate \<Rightarrow> addr \<Rightarrow> decstate" where
  "ibid_finish st a = st\<lparr>unfinishedIbids := unfinishedIbids st - {a}\<rparr>"

definition alloc :: "decstate \<Rightarrow> obj \<Rightarrow> addr \<times> decstate" where
  "alloc st ob =
     (length (heap (dworld st)),
      st\<lparr>dworld := (dworld st)\<lparr>heap := heap (dworld st) @ [ob]\<rparr>\<rparr>)"

definition update_obj :: "decstate \<Rightarrow> addr \<Rightarrow> (obj \<Rightarrow> obj) \<Rightarrow> decstate" where
  "update_obj st a f =
     st\<lparr>dworld := (dworld st)\<lparr>heap := (heap (dworld st))[a := f (heap (dworld st) ! a)]\<rparr>\<rparr>"

text \<open>\<^verbatim>\<open>result[i] = v\<close> on the array under construction, whose length is \<open>i\<close>.\<close>

definition push_element :: "jsval \<Rightarrow> obj \<Rightarrow> obj" where
  "push_element v ob =
     (case kind ob of
        ArrayExotic es \<Rightarrow> ob\<lparr>kind := ArrayExotic (es @ [Some (Data v True)])\<rparr>
      | _ \<Rightarrow> ob)"

fun put_property :: "(pkey \<times> pdesc) list \<Rightarrow> string \<Rightarrow> jsval \<Rightarrow> (pkey \<times> pdesc) list" where
  "put_property [] k v = [(SKey k, Data v True)]"
| "put_property ((k', d) # ps) k v =
     (if k' = SKey k then (k', Data v (pdesc_enumerable d)) # ps
      else (k', d) # put_property ps k v)"

text \<open>
  \<^verbatim>\<open>result[name] = v\<close> on the record under construction (ECMAScript, OrdinarySet,
  in strict code). An own property is set. Otherwise the first object of the
  prototype chain that has the name decides: a data property of an object that is not
  frozen lets the assignment create an own property; a data property of a frozen
  object is read-only, and the assignment is a \<^verbatim>\<open>TypeError\<close>, unless it is a
  property of an intrinsic whose override SES enables (the moderate taming of
  \<^verbatim>\<open>lockdown\<close>); the accessor \<^verbatim>\<open>__proto__\<close> of \<^verbatim>\<open>Object.prototype\<close> has a
  setter: an object or \<^verbatim>\<open>null\<close> replaces the prototype (a cyclic chain is a
  \<^verbatim>\<open>TypeError\<close>), any other value is ignored, and no own property is created; the
  setter of any other accessor is outside the model. A name that no prototype has
  becomes an own property.
\<close>

datatype assignment = CreateOwn | ReadOnly | ProtoSetter | UnmodelledSetter

fun override_enabled :: "proto \<Rightarrow> string \<Rightarrow> bool" where
  "override_enabled ObjectProto k = (k \<in> {''toString'', ''valueOf''})"
| "override_enabled ArrayProto k = (k \<in> {''toString'', ''push'', ''concat''})"
| "override_enabled FunctionProto k = (k \<in> {''constructor'', ''bind'', ''toString''})"
| "override_enabled (ErrorProto c) k =
     (k \<in> {''constructor'', ''message'', ''name''} \<or> (k = ''toString'' \<and> c = EError))"
| "override_enabled PromiseProto k = (k = ''constructor'')"
| "override_enabled p k = False"

fun inherited_assignment :: "world \<Rightarrow> proto list \<Rightarrow> string \<Rightarrow> assignment" where
  "inherited_assignment w [] name = CreateOwn"
| "inherited_assignment w (ObjProto p # ps) name =
     (case lookup w p of
        None \<Rightarrow> inherited_assignment w ps name
      | Some ob \<Rightarrow>
          (case map_of (own_string_descs ob) name of
             None \<Rightarrow> inherited_assignment w ps name
           | Some (Data v e) \<Rightarrow> if frozen ob then ReadOnly else CreateOwn
           | Some (Accessor v e) \<Rightarrow> UnmodelledSetter))"
| "inherited_assignment w (p # ps) name =
     (if p = ObjectProto \<and> name = ''__proto__'' then ProtoSetter
      else if intrinsic_own p name \<noteq> NotFound
      then (if override_enabled p name then CreateOwn else ReadOnly)
      else inherited_assignment w ps name)"

definition assign_property :: "decstate \<Rightarrow> addr \<Rightarrow> string \<Rightarrow> jsval \<Rightarrow> error + decstate" where
  "assign_property st a name v =
     (case lookup (dworld st) a of
        None \<Rightarrow> Inl Dangling
      | Some ob \<Rightarrow>
          if own_string_property ob name \<noteq> None
          then Inr (update_obj st a (\<lambda>ob. ob\<lparr>props := put_property (props ob) name v\<rparr>))
          else
            (case inherited_assignment (dworld st)
                    (proto_chain (dworld st) (chain_fuel (dworld st)) (proto ob)) name of
               CreateOwn \<Rightarrow>
                 Inr (update_obj st a (\<lambda>ob. ob\<lparr>props := put_property (props ob) name v\<rparr>))
             | ReadOnly \<Rightarrow> Inl AssignReadOnly
             | UnmodelledSetter \<Rightarrow> Inl OutsideModel
             | ProtoSetter \<Rightarrow>
                 (case v of
                    Ref p \<Rightarrow>
                      if p = a \<or> ObjProto a \<in> set (proto_chain (dworld st) (chain_fuel (dworld st))
                                                     (ObjProto p))
                      then Inl CyclicProtoValue
                      else Inr (update_obj st a (\<lambda>ob. ob\<lparr>proto := ObjProto p\<rparr>))
                  | Null \<Rightarrow> Inr (update_obj st a (\<lambda>ob. ob\<lparr>proto := NullProto\<rparr>))
                  | _ \<Rightarrow> Inr st)))"

text \<open>
  \<^verbatim>\<open>BigInt(digits)\<close> on a string (ECMAScript, StringToBigInt): white space is
  trimmed; the empty string is zero; a decimal numeral may carry a sign; the prefixes
  \<^verbatim>\<open>0x\<close>, \<^verbatim>\<open>0o\<close>, \<^verbatim>\<open>0b\<close> introduce the other radixes.
\<close>

definition is_str_ws :: "char \<Rightarrow> bool" where
  "is_str_ws c = (c = CHR '' '' \<or> c = CHR 0x09 \<or> c = CHR 0x0A \<or> c = CHR 0x0B \<or> c = CHR 0x0C
                  \<or> c = CHR 0x0D \<or> c = CHR 0xA0)"

definition trim_ws :: "string \<Rightarrow> string" where
  "trim_ws s = rev (dropWhile is_str_ws (rev (dropWhile is_str_ws s)))"

definition radix_digits :: "int \<Rightarrow> string \<Rightarrow> int option" where
  "radix_digits b s =
     (if s \<noteq> [] \<and> list_all (\<lambda>c. case hex_val c of Some d \<Rightarrow> d < b | None \<Rightarrow> False) s
      then Some (foldl (\<lambda>n c. b * n + (case hex_val c of Some d \<Rightarrow> d | None \<Rightarrow> 0)) 0 s)
      else None)"

definition StringToBigInt :: "string \<Rightarrow> int option" where
  "StringToBigInt str =
     (let s = trim_ws str in
      if s = [] then Some 0
      else if starts_with ''0x'' s \<or> starts_with ''0X'' s then radix_digits 16 (drop 2 s)
      else if starts_with ''0o'' s \<or> starts_with ''0O'' s then radix_digits 8 (drop 2 s)
      else if starts_with ''0b'' s \<or> starts_with ''0B'' s then radix_digits 2 (drop 2 s)
      else if starts_with ''-'' s then map_option uminus (radix_digits 10 (drop 1 s))
      else if starts_with ''+'' s then radix_digits 10 (drop 1 s)
      else radix_digits 10 s)"

text \<open>
  \<^verbatim>\<open>harden(new EC(message))\<close>: a frozen ordinary object that inherits from the
  prototype of the class and owns the non-enumerable \<^verbatim>\<open>message\<close>.
\<close>

definition new_error :: "errclass \<Rightarrow> string \<Rightarrow> obj" where
  "new_error c message =
     \<lparr>kind = Ordinary, proto = ErrorProto c,
      props = [(SKey ''message'', Data (Str message) False)], frozen = True\<rparr>"

definition empty_array :: obj where
  "empty_array = \<lparr>kind = ArrayExotic [], proto = ArrayProto, props = [], frozen = False\<rparr>"

definition empty_object :: obj where
  "empty_object = \<lparr>kind = Ordinary, proto = ObjectProto, props = [], frozen = False\<rparr>"

fun json_to_jsval :: "json \<Rightarrow> jsval" where
  "json_to_jsval JNull = Null"
| "json_to_jsval (JBool b) = Bool b"
| "json_to_jsval (JNum n) = Num n"
| "json_to_jsval (JStr s) = Str s"
| "json_to_jsval _ = Undefined"

text \<open>
  \<^verbatim>\<open>fullRevive\<close>, by recursion on the raw tree. The two loops of the source, over
  the elements of an array and over the own names of a record, are
  \<open>revive_elements\<close> and \<open>revive_fields\<close>; both store into the object under
  construction at the address given.
\<close>

fun fullRevive :: "'s marshal \<Rightarrow> 's list \<Rightarrow> string \<Rightarrow> decstate \<Rightarrow> json \<Rightarrow> error + (jsval \<times> decstate)"
  and revive_elements ::
    "'s marshal \<Rightarrow> 's list \<Rightarrow> string \<Rightarrow> decstate \<Rightarrow> addr \<Rightarrow> json list \<Rightarrow> error + decstate"
  and revive_fields ::
    "'s marshal \<Rightarrow> 's list \<Rightarrow> string \<Rightarrow> decstate \<Rightarrow> addr \<Rightarrow> (string \<times> json) list \<Rightarrow> error + decstate"
  where
  "fullRevive m sl pol st (JArr xs) =
     (let (result, st1) = alloc st empty_array in
      ebind (revive_elements m sl pol (ibid_start st1 result) result xs)
        (\<lambda>st2. Inr (Ref result, ibid_finish st2 result)))"
| "fullRevive m sl pol st (JObj kvs) =
     (case map_of kvs QCLASS of
        Some qclass \<Rightarrow>
          (case qclass of
             JStr q \<Rightarrow>
               if q = ''undefined'' then Inr (Undefined, st)
               else if q = ''NaN'' then Inr (Num NaN, st)
               else if q = ''Infinity'' then Inr (Num PosInf, st)
               else if q = ''-Infinity'' then Inr (Num NegInf, st)
               else if q = ''bigint'' then
                 (case map_of kvs ''digits'' of
                    Some (JStr digits) \<Rightarrow>
                      (case StringToBigInt digits of
                         Some i \<Rightarrow> Inr (BigInt i, st)
                       | None \<Rightarrow> Inl BigIntSyntaxError)
                  | _ \<Rightarrow> Inl InvalidDigits)
               else if q = ''@@asyncIterator'' then Inr (Sym AsyncIterator, st)
               else if q = ''ibid'' then
                 ebind (ibid_get pol st (map_of kvs ''index'')) (\<lambda>v. Inr (v, st))
               else if q = ''error'' then
                 (case map_of kvs ''name'' of
                    Some (JStr name) \<Rightarrow>
                      (case map_of kvs ''message'' of
                         Some (JStr message) \<Rightarrow>
                           (let EC = (case getErrorConstructor name of Some c \<Rightarrow> c | None \<Rightarrow> EError);
                                (err, st1) = alloc st (new_error EC message);
                                st2 = ibid_register st1 (Ref err)
                            in case map_of kvs ''errorId'' of
                                 Some (JStr errorId) \<Rightarrow>
                                   Inr (Ref err,
                                        st2\<lparr>received_notes := received_notes st2 @ [(err, errorId)]\<rparr>)
                               | _ \<Rightarrow> Inr (Ref err, st2))
                       | _ \<Rightarrow> Inl InvalidErrorMessage)
                  | _ \<Rightarrow> Inl InvalidErrorName)
               else if q = ''slot'' then
                 ebind (Nat (map_of kvs ''index'')) (\<lambda>index.
                   let slot = (if index < length sl then Some (sl ! index) else None);
                       v = convertSlotToVal m slot (map_of kvs ''iface'')
                   in Inr (v, ibid_register st v))
               else Inl (UnrecognizedQclass q)
           | _ \<Rightarrow> Inl InvalidQclass)
      | None \<Rightarrow>
          (let (result, st1) = alloc st empty_object in
           ebind (revive_fields m sl pol (ibid_start st1 result) result kvs)
             (\<lambda>st2. Inr (Ref result, ibid_finish st2 result))))"
| "fullRevive m sl pol st rawTree = Inr (json_to_jsval rawTree, st)"
| "revive_elements m sl pol st result [] = Inr st"
| "revive_elements m sl pol st result (x # xs) =
     ebind (fullRevive m sl pol st x) (\<lambda>(v, st1).
       revive_elements m sl pol (update_obj st1 result (push_element v)) result xs)"
| "revive_fields m sl pol st result [] = Inr st"
| "revive_fields m sl pol st result ((name, x) # kvs) =
     ebind (fullRevive m sl pol st x) (\<lambda>(v, st1).
       ebind (assign_property st1 result name v) (\<lambda>st2.
         revive_fields m sl pol st2 result kvs))"

definition init_decstate :: "world \<Rightarrow> decstate" where
  "init_decstate w = \<lparr>dworld = w, ibids = [], unfinishedIbids = {}, received_notes = []\<rparr>"

text \<open>
  Modelled from the spec: \<^verbatim>\<open>harden\<close> of SES is not under the sources; it freezes
  every object reachable from its argument through own property values and prototypes.
  The objects reached are found by as many rounds as the heap has objects.
\<close>

fun desc_refs :: "pdesc \<Rightarrow> addr list" where
  "desc_refs (Data (Ref a) e) = [a]"
| "desc_refs _ = []"

definition obj_refs :: "obj \<Rightarrow> addr list" where
  "obj_refs ob =
     concat (map (\<lambda>kd. desc_refs (snd kd)) (props ob))
       @ (case kind ob of
            ArrayExotic es \<Rightarrow> concat (map (\<lambda>e. case e of Some d \<Rightarrow> desc_refs d | None \<Rightarrow> []) es)
          | _ \<Rightarrow> [])
       @ (case proto ob of ObjProto p \<Rightarrow> [p] | _ \<Rightarrow> [])"

definition successors :: "world \<Rightarrow> addr list \<Rightarrow> addr list" where
  "successors w as =
     concat (map (\<lambda>a. case lookup w a of Some ob \<Rightarrow> obj_refs ob | None \<Rightarrow> []) as)"

fun reachable_from :: "world \<Rightarrow> nat \<Rightarrow> addr list \<Rightarrow> addr list" where
  "reachable_from w 0 as = as"
| "reachable_from w (Suc n) as = reachable_from w n (remdups (as @ successors w as))"

definition freeze_all :: "world \<Rightarrow> addr list \<Rightarrow> world" where
  "freeze_all w as =
     w\<lparr>heap := map (\<lambda>(a, ob). if a \<in> set as then ob\<lparr>frozen := True\<rparr> else ob)
                  (zip [0 ..< length (heap w)] (heap w))\<rparr>"

fun harden :: "world \<Rightarrow> jsval \<Rightarrow> world" where
  "harden w (Ref a) = freeze_all w (reachable_from w (length (heap w)) [a])"
| "harden w v = w"

text \<open>
  \<^verbatim>\<open>unserialize\<close>: the revived value, the world with the revived graph hardened,
  and the notes. The capdata record has a string body and a list of slots, so the two
  guards of the source on their types hold.
\<close>

definition unserialize ::
  "'s marshal \<Rightarrow> world \<Rightarrow> 's capdata \<Rightarrow> string \<Rightarrow> error + (jsval \<times> world \<times> (addr \<times> string) list)" where
  "unserialize m w data cyclePolicy =
     ebind (JSON_parse (body data)) (\<lambda>rawTree.
       ebind (fullRevive m (slots data) cyclePolicy (init_decstate w) rawTree) (\<lambda>(result, st).
         Inr (result, harden (dworld st) result, received_notes st)))"

text \<open>The default translators of \<^verbatim>\<open>makeMarshal\<close> and the default marshal.\<close>

definition defaultValToSlotFn :: "jsval \<Rightarrow> jsval" where
  "defaultValToSlotFn x = x"

definition defaultSlotToValFn :: "jsval option \<Rightarrow> json option \<Rightarrow> jsval" where
  "defaultSlotToValFn x i = (case x of Some v \<Rightarrow> v | None \<Rightarrow> Undefined)"

definition makeMarshal :: "jsval marshal" where
  "makeMarshal =
     \<lparr>convertValToSlot = defaultValToSlotFn, convertSlotToVal = defaultSlotToValFn,
      marshalName = ''anon-marshal''\<rparr>"

section \<open>The Remotable constructor\<close>

definition alloc_obj :: "world \<Rightarrow> obj \<Rightarrow> addr \<times> world" where
  "alloc_obj w ob = (length (heap w), w\<lparr>heap := heap w @ [ob]\<rparr>)"

definition modify_obj :: "world \<Rightarrow> addr \<Rightarrow> (obj \<Rightarrow> obj) \<Rightarrow> world" where
  "modify_obj w a f = w\<lparr>heap := (heap w)[a := f (heap w ! a)]\<rparr>"

text \<open>
  \<^verbatim>\<open>Object.defineProperties(target, newProps)\<close> with descriptors \<^verbatim>\<open>{ value }\<close>: on a
  frozen target a property can only be redefined with the value it has; otherwise the
  value is set, and a new property is not enumerable.
\<close>

fun define_value :: "(pkey \<times> pdesc) list \<Rightarrow> string \<Rightarrow> jsval \<Rightarrow> (pkey \<times> pdesc) list" where
  "define_value [] k v = [(SKey k, Data v False)]"
| "define_value ((k', d) # ps) k v =
     (if k' = SKey k then (k', Data v (pdesc_enumerable d)) # ps
      else (k', d) # define_value ps k v)"

fun defineProperties :: "obj \<Rightarrow> (string \<times> jsval) list \<Rightarrow> error + obj" where
  "defineProperties ob [] = Inr ob"
| "defineProperties ob ((k, v) # es) =
     (if frozen ob then
        (case map_of (props ob) (SKey k) of
           Some (Data v' e) \<Rightarrow> if v' = v then defineProperties ob es else Inl NotExtensible
         | _ \<Rightarrow> Inl NotExtensible)
      else defineProperties (ob\<lparr>props := define_value (props ob) k v\<rparr>) es)"

text \<open>\<^verbatim>\<open>Object.entries(props)\<close>: the enumerable own string-keyed properties.\<close>

definition Object_entries :: "obj \<Rightarrow> (string \<times> jsval) list" where
  "Object_entries ob =
     map (\<lambda>kd. (fst kd, pdesc_get (snd kd))) (filter (\<lambda>kd. pdesc_enumerable (snd kd)) (own_string_descs ob))"

definition valid_iface :: "jsval \<Rightarrow> string option" where
  "valid_iface iface =
     (case iface of
        Str s \<Rightarrow> if s = ''Remotable'' \<or> starts_with ''Alleged: '' s then Some s else None
      | _ \<Rightarrow> None)"

definition harden_proto :: "world \<Rightarrow> proto \<Rightarrow> world" where
  "harden_proto w p = (case p of ObjProto a \<Rightarrow> harden w (Ref a) | _ \<Rightarrow> w)"

text \<open>
  \<^verbatim>\<open>mutateHardenAndCheck(target)\<close> of the source: define the snapshotted properties,
  set the prototype (a \<^verbatim>\<open>TypeError\<close> on a frozen target), harden, and check.
\<close>

definition mutateHardenAndCheck ::
  "world \<Rightarrow> (string \<times> jsval) list \<Rightarrow> addr \<Rightarrow> addr \<Rightarrow> error + world" where
  "mutateHardenAndCheck w propEntries remotableProto target =
     (case lookup w target of
        None \<Rightarrow> Inl Dangling
      | Some ob \<Rightarrow>
          ebind (defineProperties ob propEntries) (\<lambda>ob1.
            if frozen ob1 then Inl NotExtensible
            else
              let w1 = modify_obj w target (\<lambda>_. ob1\<lparr>proto := ObjProto remotableProto\<rparr>);
                  w2 = harden w1 (Ref target)
              in ebind (assertCanBeRemotable w2 (Ref target)) (\<lambda>_. Inr w2)))"

text \<open>
  \<^verbatim>\<open>Remotable(iface, props, remotable)\<close>. An absent argument (\<open>Undefined\<close>, \<open>None\<close>)
  takes the default of the source: \<^verbatim>\<open>'Remotable'\<close>, and a fresh empty object for
  \<^verbatim>\<open>props\<close> and for \<^verbatim>\<open>remotable\<close>. The registry is written by the last statement
  only, after every check has passed.
\<close>

definition toStringTag :: symbol where
  "toStringTag = OtherSymbol ''Symbol.toStringTag''"

definition Remotable :: "world \<Rightarrow> jsval \<Rightarrow> addr option \<Rightarrow> addr option \<Rightarrow> error + (addr \<times> world)" where
  "Remotable w0 iface0 props0 remotable0 =
     (let iface = (if iface0 = Undefined then Str ''Remotable'' else iface0);
          (remotable, w) = (case remotable0 of
                              Some a \<Rightarrow> (a, w0)
                            | None \<Rightarrow> alloc_obj w0 empty_object)
      in case valid_iface iface of
           None \<Rightarrow> Inl AssertFail
         | Some allegedName \<Rightarrow>
             ebind (assertCanBeRemotable w (Ref remotable)) (\<lambda>_.
               if registry w remotable \<noteq> None then Inl AlreadyRegistered
               else
                 (case lookup w remotable of
                    None \<Rightarrow> Inl Dangling
                  | Some ob \<Rightarrow>
                      let oldRemotableProto = proto ob;
                          w1 = harden_proto w oldRemotableProto;
                          (fresh, w2) = alloc_obj w1 (empty_object\<lparr>proto := oldRemotableProto, frozen := True\<rparr>)
                      in ebind (mustPassByRemote (chain_fuel w2) w2 (ObjProto fresh)) (\<lambda>_.
                           let (toString, w3) =
                                 alloc_obj w2 \<lparr>kind = Callable, proto = FunctionProto, props = [], frozen = True\<rparr>;
                               (remotableProto, w4) =
                                 alloc_obj w3
                                   \<lparr>kind = Ordinary, proto = oldRemotableProto,
                                    props = [(SKey ''toString'', Data (Ref toString) False),
                                             (SymKey toStringTag, Data (Str allegedName) False)],
                                    frozen = True\<rparr>;
                               propEntries = (case props0 of
                                                None \<Rightarrow> []
                                              | Some p \<Rightarrow> (case lookup w4 p of
                                                            Some pob \<Rightarrow> Object_entries pob
                                                          | None \<Rightarrow> []));
                               (throwawayRemotable, w5) =
                                 alloc_obj w4 (empty_object\<lparr>proto := oldRemotableProto\<rparr>)
                           in ebind (mutateHardenAndCheck w5 propEntries remotableProto throwawayRemotable) (\<lambda>w6.
                                ebind (mutateHardenAndCheck w6 propEntries remotableProto remotable) (\<lambda>w7.
                                  Inr (remotable, w7\<lparr>registry := (registry w7)(remotable \<mapsto> allegedName)\<rparr>)))))))"

definition Far :: "world \<Rightarrow> string \<Rightarrow> addr option \<Rightarrow> error + (addr \<times> world)" where
  "Far w farName remotable = Remotable w (Str (''Alleged: '' @ farName)) None remotable"

section \<open>Example worlds\<close>

text \<open>
  The heap of scenario 4 of the specification: \<^verbatim>\<open>a = {}\<close> at address 0 and
  \<^verbatim>\<open>b = {x: a, y: a}\<close> at address 1, both frozen.
\<close>

definition shared_world :: world where
  "shared_world =
     \<lparr>heap = [\<lparr>kind = Ordinary, proto = ObjectProto, props = [], frozen = True\<rparr>,
              \<lparr>kind = Ordinary, proto = ObjectProto,
               props = [(SKey ''x'', Data (Ref 0) True), (SKey ''y'', Data (Ref 0) True)],
               frozen = True\<rparr>],
      registry = Map.empty\<rparr>"

definition empty_world :: world where
  "empty_world = \<lparr>heap = [], registry = Map.empty\<rparr>"

text \<open>
  The world after \<^verbatim>\<open>r = Remotable()\<close> in the empty world: the remotable \<^verbatim>\<open>r\<close> at
  address 0, the object of the prototype check at 1, the \<^verbatim>\<open>toString\<close> function at 2,
  the debug prototype at 3 and the throwaway remotable at 4.
\<close>

definition remotable_world :: world where
  "remotable_world =
     \<lparr>heap = [\<lparr>kind = Ordinary, proto = ObjProto 3, props = [], frozen = True\<rparr>,
              \<lparr>kind = Ordinary, proto = ObjectProto, props = [], frozen = True\<rparr>,
              \<lparr>kind = Callable, proto = FunctionProto, props = [], frozen = True\<rparr>,
              \<lparr>kind = Ordinary, proto = ObjectProto,
               props = [(SKey ''toString'', Data (Ref 2) False),
                        (SymKey toStringTag, Data (Str ''Remotable'') False)],
               frozen = True\<rparr>,
              \<lparr>kind = Ordinary, proto = ObjProto 3, props = [], frozen = True\<rparr>],
      registry = [0 \<mapsto> ''Remotable'']\<rparr>"




text \<open>\<^verbatim>\<open>v[k]\<close> on a value: the property read on the object it refers to.\<close>

definition field_of :: "world \<Rightarrow> jsval \<Rightarrow> string \<Rightarrow> found" where
  "field_of w v k =
     (case v of
        Ref a \<Rightarrow> (case lookup w a of Some ob \<Rightarrow> get_property w ob k | None \<Rightarrow> NotFound)
      | _ \<Rightarrow> NotFound)"

text \<open>
  The world after decoding the capdata of scenario 4 in \<open>shared_world\<close>: the revived
  record at address 2, hardened; both of its fields refer to the object at address 0.
\<close>

definition shared_decoded_world :: world where
  "shared_decoded_world =
     shared_world\<lparr>heap := heap shared_world @
        [\<lparr>kind = Ordinary, proto = ObjectProto,
          props = [(SKey ''x'', Data (Ref 0) True), (SKey ''y'', Data (Ref 0) True)],
          frozen = True\<rparr>]\<rparr>"

section \<open>Evaluation on concrete fuel\<close>

lemma proto_chain_numeral [simp]:
  "proto_chain w (numeral k) p =
     (case p of
        NullProto \<Rightarrow> []
      | ObjProto a \<Rightarrow>
          ObjProto a # (case lookup w a of
                          None \<Rightarrow> []
                        | Some ob \<Rightarrow> proto_chain w (pred_numeral k) (proto ob))
      | _ \<Rightarrow> p # proto_chain w (pred_numeral k) (intrinsic_parent p))"
  by (cases p) (simp_all add: numeral_eq_Suc)

lemmas mustPassByRemote_numeral [simp] =
  mustPassByRemote.simps(2-8) [of "pred_numeral k", folded numeral_eq_Suc] for k

lemmas encode_numeral =
  encode.simps(2) [of "pred_numeral k", folded numeral_eq_Suc] for k

lemmas classify_defs =
  lookup_def has_property_def get_property_def own_string_property_def chain_fuel_def
  QCLASS_def isPromise_def isPassByCopyError_def isPassByCopyArray_def isPassByCopyRecord_def
  instanceof_Error_def own_string_descs_def object_prototype_methods_def

section \<open>Classification of plain objects\<close>

lemma proto_chain_ObjectProto: "proto_chain w (chain_fuel w) ObjectProto = [ObjectProto]"
  by (simp add: chain_fuel_def numeral_3_eq_3)

lemma get_property_plain:
  "proto ob = ObjectProto \<Longrightarrow> own_string_property ob k = None \<Longrightarrow>
   get_property w ob k = intrinsic_own ObjectProto k"
  by (cases "intrinsic_own ObjectProto k") (simp_all add: get_property_def proto_chain_ObjectProto)

lemma empty_object_is_remote:
  assumes "lookup w a = Some ob" "kind ob \<noteq> Callable" "proto ob = ObjectProto"
    "props ob = []" "own_string_descs ob = []" "frozen ob"
  shows "passStyleOf w (Ref a) = Inr PSremote"
proof -
  have nq: "\<not> has_property w ob QCLASS"
    using assms
    by (simp add: has_property_def get_property_plain own_string_property_def QCLASS_def
        object_prototype_methods_def)
  have nt: "\<not> found_is_function w (get_property w ob ''then'')"
    using assms
    by (simp add: get_property_plain own_string_property_def object_prototype_methods_def)
  have ne: "isPassByCopyError w ob = Inr False"
    using assms by (simp add: isPassByCopyError_def instanceof_Error_def proto_chain_ObjectProto)
  have na: "isPassByCopyArray w ob = Inr False"
    using assms by (auto simp: isPassByCopyArray_def own_string_descs_def split: objkind.splits)
  have nr: "isPassByCopyRecord w ob = Inr False"
    using assms by (simp add: isPassByCopyRecord_def)
  have np: "\<not> isPromise ob"
    using assms by (simp add: isPromise_def)
  have ac: "assertCanBeRemotable w (Ref a) = Inr ()"
    using assms by (auto simp: own_string_descs_def split: objkind.splits)
  have mp: "getInterfaceOf w (Ref a) = None \<Longrightarrow>
            mustPassByRemote (chain_fuel w) w (ObjProto a) = Inr ()"
    using assms ac by (simp add: chain_fuel_def numeral_3_eq_3)
  show ?thesis
    using assms nq nt ne na nr np mp by (cases "registry w a") simp_all
qed

lemma copyRecord_has_field:
  "passStyleOf w (Ref a) = Inr PScopyRecord \<Longrightarrow> lookup w a = Some ob \<Longrightarrow>
   own_string_descs ob \<noteq> []"
  by (auto simp: ebind_def isPassByCopyRecord_def Let_def split: if_splits sum.splits option.splits)

text \<open>
  Claim C8. The record pass-style needs at least one own field. A frozen object
  (\<^verbatim>\<open>typeof\<close> \<^verbatim>\<open>'object'\<close>) whose prototype is \<^verbatim>\<open>Object.prototype\<close> and that has
  no own property is classified as remote, and every object classified as
  \<^verbatim>\<open>copyRecord\<close> has at least one own string-keyed property.
\<close>

theorem C8_record_needs_a_field:
  "(lookup w a = Some ob \<and> kind ob \<noteq> Callable \<and> proto ob = ObjectProto \<and> props ob = []
      \<and> own_string_descs ob = [] \<and> frozen ob
      \<longrightarrow> passStyleOf w (Ref a) = Inr PSremote)
   \<and> (lookup w a = Some ob \<and> passStyleOf w (Ref a) = Inr PScopyRecord
      \<longrightarrow> own_string_descs ob \<noteq> [])"
proof (intro conjI impI)
  assume "lookup w a = Some ob \<and> kind ob \<noteq> Callable \<and> proto ob = ObjectProto \<and> props ob = []
      \<and> own_string_descs ob = [] \<and> frozen ob"
  then show "passStyleOf w (Ref a) = Inr PSremote"
    by (elim conjE) (rule empty_object_is_remote)
next
  assume "lookup w a = Some ob \<and> passStyleOf w (Ref a) = Inr PScopyRecord"
  then show "own_string_descs ob \<noteq> []"
    by (elim conjE) (rule copyRecord_has_field)
qed

theorem C8_witness:
  "passStyleOf shared_world (Ref 0) = Inr PSremote
   \<and> passStyleOf shared_world (Ref 1) = Inr PScopyRecord
   \<and> own_string_descs (heap shared_world ! 1) \<noteq> []"
proof -
  have r: "passStyleOf shared_world (Ref 1) = Inr PScopyRecord"
    by (simp add: shared_world_def classify_defs)
  have l0: "lookup shared_world 0 = Some (heap shared_world ! 0)"
    and l1: "lookup shared_world 1 = Some (heap shared_world ! 1)"
    by (simp_all add: shared_world_def lookup_def)
  have h0: "kind (heap shared_world ! 0) \<noteq> Callable \<and> proto (heap shared_world ! 0) = ObjectProto
      \<and> props (heap shared_world ! 0) = [] \<and> own_string_descs (heap shared_world ! 0) = []
      \<and> frozen (heap shared_world ! 0)"
    by (simp add: shared_world_def own_string_descs_def)
  have a: "passStyleOf shared_world (Ref 0) = Inr PSremote"
    by (rule C8_record_needs_a_field [of shared_world 0 "heap shared_world ! 0",
          THEN conjunct1, THEN mp, OF conjI [OF l0 h0]])
  have b: "own_string_descs (heap shared_world ! 1) \<noteq> []"
    by (rule C8_record_needs_a_field [of shared_world 1 "heap shared_world ! 1",
          THEN conjunct2, THEN mp, OF conjI [OF l1 r]])
  show ?thesis
    by (rule conjI [OF a conjI [OF r b]])
qed

lemmas revive_defs =
  init_decstate_def alloc_def ibid_start_def ibid_finish_def ibid_get_def ibid_register_def
  update_obj_def assign_property_def push_element_def empty_object_def empty_array_def
  QCLASS_def new_error_def makeMarshal_def defaultSlotToValFn_def Let_def lookup_def
  own_string_property_def own_string_descs_def chain_fuel_def object_prototype_methods_def

lemmas eval_congs = ebind_weak_cong let_weak_cong prod.case_cong_weak

lemmas harden_defs = lookup_def successors_def obj_refs_def freeze_all_def Let_def

section \<open>Repeated objects are backreferences\<close>

lemma Remotable_example: "Remotable empty_world Undefined None None = Inr (0, remotable_world)"
  by (simp add: Remotable_def empty_world_def remotable_world_def alloc_obj_def empty_object_def
      valid_iface_def own_string_descs_def harden_proto_def chain_fuel_def
      mutateHardenAndCheck_def modify_obj_def harden_defs toStringTag_def
      cong: ebind_weak_cong)











section \<open>Scenario 4: shared substructure\<close>

lemma shared_serialize:
  \<open>serialize makeMarshal 0 shared_world (Ref 1) =
     Inr (\<lparr>body = ''{"x":{"@qclass":"slot","index":0},"y":{"@qclass":"ibid","index":1}}'',
           slots = [Ref 0]\<rparr>, 0)\<close>
  by code_simp

lemma shared_parse:
  \<open>JSON_parse ''{"x":{"@qclass":"slot","index":0},"y":{"@qclass":"ibid","index":1}}'' =
     Inr (JObj [(''x'', JObj [(''@qclass'', JStr ''slot''), (''index'', JNum (Fin 0))]),
                (''y'', JObj [(''@qclass'', JStr ''ibid''), (''index'', JNum (Fin 1))])])\<close>
  by code_simp

lemma shared_unserialize:
  \<open>unserialize makeMarshal shared_world
      \<lparr>body = ''{"x":{"@qclass":"slot","index":0},"y":{"@qclass":"ibid","index":1}}'',
       slots = [Ref 0]\<rparr> ''allowCycles'' =
     Inr (Ref 2, shared_decoded_world, [])\<close>
  apply (simp add: unserialize_def shared_parse shared_world_def revive_defs cong: eval_congs)
  apply (simp add: harden_defs shared_decoded_world_def shared_world_def)
  done

lemma spec_body_parse:
  \<open>JSON_parse ''{"x":{},"y":{"@qclass":"ibid","index":2}}'' =
     Inr (JObj [(''x'', JObj []),
                (''y'', JObj [(''@qclass'', JStr ''ibid''), (''index'', JNum (Fin 2))])])\<close>
  by code_simp

lemma spec_body_unserialize:
  \<open>unserialize makeMarshal shared_world
      \<lparr>body = ''{"x":{},"y":{"@qclass":"ibid","index":2}}'', slots = []\<rparr> ''allowCycles'' =
     Inl (IbidOutOfRange 2)\<close>
  apply (simp add: unserialize_def spec_body_parse shared_world_def revive_defs cong: eval_congs)
  done

text \<open>
  Claim C4, as the specification states it, fails: the empty object \<^verbatim>\<open>a\<close> is
  remote-style, so the body of \<^verbatim>\<open>serialize(b)\<close> holds a slot envelope and the ibid
  index 1; and the body the specification expects does not decode, its ibid index 2 is
  out of range.
\<close>

theorem C4_counterexample:
  \<open>serialize makeMarshal 0 shared_world (Ref 1) =
     Inr (\<lparr>body = ''{"x":{"@qclass":"slot","index":0},"y":{"@qclass":"ibid","index":1}}'',
           slots = [Ref 0]\<rparr>, 0)
   \<and> ''{"x":{"@qclass":"slot","index":0},"y":{"@qclass":"ibid","index":1}}''
       \<noteq> ''{"x":{},"y":{"@qclass":"ibid","index":2}}''
   \<and> unserialize makeMarshal shared_world
        \<lparr>body = ''{"x":{},"y":{"@qclass":"ibid","index":2}}'', slots = []\<rparr> ''allowCycles'' =
       Inl (IbidOutOfRange 2)\<close>
  by (intro conjI) (rule shared_serialize, simp, rule spec_body_unserialize)

text \<open>
  Claim C4, amended. For \<^verbatim>\<open>a = {}\<close>, \<^verbatim>\<open>b = {x: a, y: a}\<close>, both frozen,
  \<^verbatim>\<open>serialize(b)\<close> has the slots \<^verbatim>\<open>[a]\<close> and the body
  \<^verbatim>\<open>{"x":{"@qclass":"slot","index":0},"y":{"@qclass":"ibid","index":1}}\<close>; decoding
  that capdata under \<^verbatim>\<open>allowCycles\<close> yields a record \<^verbatim>\<open>out\<close> whose fields
  \<^verbatim>\<open>x\<close> and \<^verbatim>\<open>y\<close> are one identical reference.
\<close>

theorem C4_shared_substructure:
  \<open>serialize makeMarshal 0 shared_world (Ref 1) =
     Inr (\<lparr>body = ''{"x":{"@qclass":"slot","index":0},"y":{"@qclass":"ibid","index":1}}'',
           slots = [Ref 0]\<rparr>, 0)
   \<and> unserialize makeMarshal shared_world
        \<lparr>body = ''{"x":{"@qclass":"slot","index":0},"y":{"@qclass":"ibid","index":1}}'',
         slots = [Ref 0]\<rparr> ''allowCycles'' =
       Inr (Ref 2, shared_decoded_world, [])
   \<and> field_of shared_decoded_world (Ref 2) ''x'' = Found (Ref 0)
   \<and> field_of shared_decoded_world (Ref 2) ''y'' = Found (Ref 0)\<close>
  by (intro conjI)
     (rule shared_serialize, rule shared_unserialize,
      simp_all add: field_of_def shared_decoded_world_def shared_world_def lookup_def
        get_property_def own_string_property_def)

section \<open>Slot indices are not range-checked\<close>

lemma slot_only_parse:
  \<open>JSON_parse ''{"@qclass":"slot","index":0}'' =
     Inr (JObj [(''@qclass'', JStr ''slot''), (''index'', JNum (Fin 0))])\<close>
  by code_simp

text \<open>
  Claim C6: a slot envelope whose index is outside the slots list does not make
  \<^verbatim>\<open>unserialize\<close> fail. With no slots at all, the body
  \<^verbatim>\<open>{"@qclass":"slot","index":0}\<close> decodes to \<^verbatim>\<open>undefined\<close>:
  \<^verbatim>\<open>slots[0]\<close> is \<^verbatim>\<open>undefined\<close> and goes to \<^verbatim>\<open>convertSlotToVal\<close> unchecked.
\<close>

theorem C6_slot_index_unchecked:
  \<open>unserialize makeMarshal empty_world \<lparr>body = ''{"@qclass":"slot","index":0}'', slots = []\<rparr>
      ''forbidCycles'' = Inr (Undefined, empty_world, [])\<close>
  apply (simp add: unserialize_def slot_only_parse empty_world_def revive_defs cong: eval_congs)
  done

end
